theory Spec2Isabelle
  imports Main "HOL-Library.Word"
begin

unbundle bit_operations_syntax

section \<open>The ARM7 core of arm7.cpp: data model\<close>

type_synonym u8 = "8 word"
type_synonym u16 = "16 word"
type_synonym u32 = "32 word"

subsection \<open>Macros and enumerations of the headers\<close>

text \<open>
  arm7.cpp includes arm7core.h, which defines the bit masks, shifts and flag values the
  functions below use. That header is not among the sources, so every function that
  uses one of its macros takes the record \<open>arm7core_h\<close> as its first argument: the
  theorems hold for whatever values the header gives them, except where a hypothesis
  says otherwise.
\<close>

record arm7core_h =
  COPRO_CTRL_MMU_EN :: u32
  COPRO_CTRL_SYSTEM :: u32
  COPRO_CTRL_ROM :: u32
  COPRO_CTRL_MASK :: u32
  COPRO_TLB_BASE_MASK :: u32
  COPRO_TLB_VADDR_FLTI_MASK_SHIFT :: nat
  COPRO_TLB_CFLD_ADDR_MASK :: u32
  COPRO_TLB_VADDR_CSLTI_MASK :: u32
  COPRO_TLB_VADDR_CSLTI_MASK_SHIFT :: nat
  COPRO_TLB_FPTB_ADDR_MASK :: u32
  COPRO_TLB_VADDR_FSLTI_MASK :: u32
  COPRO_TLB_VADDR_FSLTI_MASK_SHIFT :: nat
  COPRO_TLB_SECTION_PAGE_MASK :: u32
  COPRO_TLB_LARGE_PAGE_MASK :: u32
  COPRO_TLB_SMALL_PAGE_MASK :: u32
  COPRO_TLB_TINY_PAGE_MASK :: u32
  ARM7_TLB_ABORT_D :: u32
  ARM7_TLB_READ :: u32
  ARM7_TLB_WRITE :: u32
  INSN_COPRO_CREG :: u32
  INSN_COPRO_CREG_SHIFT :: nat
  INSN_COPRO_OP2 :: u32
  INSN_COPRO_OP2_SHIFT :: nat
  INSN_COPRO_OP3 :: u32
  INSN_COPRO_CPNUM :: u32
  INSN_COPRO_CPNUM_SHIFT :: nat
  AS_PROGRAM :: int

text \<open>
  The values of the ARM architecture (CP15 register 1: M bit 0, S bit 8, R bit 9; MCR/MRC
  fields CRn 19..16, coprocessor number 11..8, opcode2 7..5, CRm 3..0; first-level index
  bits 31..20; second-level index bits 19..12 and 19..10; the write flag at bit 8 as the
  comment above \<open>detect_fault\<close> says). This instance is used only to evaluate the
  theorems at concrete inputs.
\<close>

definition arm7core_h_values :: arm7core_h where
  "arm7core_h_values =
     \<lparr> COPRO_CTRL_MMU_EN = 0x00000001, COPRO_CTRL_SYSTEM = 0x00000100,
       COPRO_CTRL_ROM = 0x00000200, COPRO_CTRL_MASK = 0x0000338F,
       COPRO_TLB_BASE_MASK = 0xFFFFC000, COPRO_TLB_VADDR_FLTI_MASK_SHIFT = 20,
       COPRO_TLB_CFLD_ADDR_MASK = 0xFFFFFC00, COPRO_TLB_VADDR_CSLTI_MASK = 0x000FF000,
       COPRO_TLB_VADDR_CSLTI_MASK_SHIFT = 10,
       COPRO_TLB_FPTB_ADDR_MASK = 0xFFFFF000, COPRO_TLB_VADDR_FSLTI_MASK = 0x000FFC00,
       COPRO_TLB_VADDR_FSLTI_MASK_SHIFT = 8,
       COPRO_TLB_SECTION_PAGE_MASK = 0xFFF00000, COPRO_TLB_LARGE_PAGE_MASK = 0xFFFF0000,
       COPRO_TLB_SMALL_PAGE_MASK = 0xFFFFF000, COPRO_TLB_TINY_PAGE_MASK = 0xFFFFFC00,
       ARM7_TLB_ABORT_D = 0x1, ARM7_TLB_READ = 0x4, ARM7_TLB_WRITE = 0x100,
       INSN_COPRO_CREG = 0x000F0000, INSN_COPRO_CREG_SHIFT = 16,
       INSN_COPRO_OP2 = 0x000000E0, INSN_COPRO_OP2_SHIFT = 5,
       INSN_COPRO_OP3 = 0x0000000F,
       INSN_COPRO_CPNUM = 0x00000F00, INSN_COPRO_CPNUM_SHIFT = 8,
       AS_PROGRAM = 0 \<rparr>"

text \<open>
  Modelled from the spec: the enumerations of arm7core.h that the spec gives values for.
  First-level descriptor kinds (section 4.2, step 2: 0 unmapped, 1 coarse, 2 section,
  3 fine), second-level kinds (step 5: 0 unmapped, 1 large, 2 small, 3 tiny), the low
  four bits of the User mode number 10h, and the CPSR flags N Z C V in bits 31..28
  (section 3: N Z C V Q, with Q at bit 27).
\<close>

definition COPRO_TLB_UNMAPPED :: u32 where "COPRO_TLB_UNMAPPED = 0"
definition COPRO_TLB_COARSE_TABLE :: u32 where "COPRO_TLB_COARSE_TABLE = 1"
definition COPRO_TLB_SECTION_TABLE :: u32 where "COPRO_TLB_SECTION_TABLE = 2"
definition COPRO_TLB_FINE_TABLE :: u32 where "COPRO_TLB_FINE_TABLE = 3"
definition COPRO_TLB_LARGE_PAGE :: u32 where "COPRO_TLB_LARGE_PAGE = 1"
definition COPRO_TLB_SMALL_PAGE :: u32 where "COPRO_TLB_SMALL_PAGE = 2"
definition COPRO_TLB_TINY_PAGE :: u32 where "COPRO_TLB_TINY_PAGE = 3"
definition eARM7_MODE_USER :: int where "eARM7_MODE_USER = 0"


datatype fault = FAULT_NONE | FAULT_DOMAIN | FAULT_PERMISSION

datatype granularity = TLB_COARSE | TLB_FINE

subsection \<open>The host's address space\<close>

text \<open>
  \<open>m_program\<close> and \<open>m_direct\<close> belong to the host. The model keeps what the core asks
  of them: a read is answered by the host's read functions (\<open>read_ptr\<close> gives the
  words behind a direct pointer, indexed as a \<open>uint32_t\<close> array), and every write
  request is recorded, the latest first.
\<close>

datatype bus_write = write_byte u32 u8 | write_word u32 u16 | write_dword u32 u32

record address_space =
  read_byte :: "u32 \<Rightarrow> u8"
  read_word :: "u32 \<Rightarrow> u16"
  read_dword :: "u32 \<Rightarrow> u32"
  read_ptr :: "u32 \<Rightarrow> u32 \<Rightarrow> u32"
  written :: "bus_write list"

subsection \<open>The state of one CPU\<close>

text \<open>
  \<open>internal_arm_state\<close> (the fields arm7.cpp reads and writes) together with the
  members of \<open>arm7_cpu_device\<close> the modelled functions touch. \<open>s_fault_table\<close> is
  the static array of 512 entries. \<open>m_icount\<close> is a C \<open>int\<close>; it never comes near
  its bounds in what follows, so it is an unbounded integer here.
\<close>

record arm_state =
  m_r :: "nat \<Rightarrow> u32"
  m_pendingIrq :: bool
  m_pendingFiq :: bool
  m_pendingAbtD :: bool
  m_pendingAbtP :: bool
  m_pendingUnd :: bool
  m_pendingSwi :: bool
  m_pending_interrupt :: bool
  m_icount :: int
  m_control :: u32
  m_tlbBase :: u32
  m_tlb_base_mask :: u32
  m_faultStatus :: "nat \<Rightarrow> u32"
  m_faultAddress :: u32
  m_fcsePID :: u32
  m_pid_offset :: u32
  m_domainAccessControl :: u32
  m_decoded_access_control :: "nat \<Rightarrow> u8"
  m_mode :: u32
  m_mode_changed :: bool
  m_tlb_base :: "u32 \<Rightarrow> u32"
  m_program :: address_space
  m_insn :: u32
  m_archRev :: u8
  s_fault_table :: "nat \<Rightarrow> fault"

section \<open>The fault decision table\<close>

text \<open>
  \<open>decode_fault\<close> (lines 291-355). Its parameters are C \<open>int\<close>s. The inner
  \<open>switch (ap & 3)\<close> breaks out of cases 1 and 2 to the \<open>return FAULT_NONE\<close> after it.
\<close>

definition decode_fault :: "int \<Rightarrow> int \<Rightarrow> int \<Rightarrow> int \<Rightarrow> int \<Rightarrow> int \<Rightarrow> fault" where
  "decode_fault mode ap access_control system rom write =
     (if access_control AND 3 = 0 then FAULT_DOMAIN
      else if access_control AND 3 = 1 then
        (if ap AND 3 = 0 then
           (if system \<noteq> 0 then
              (if rom \<noteq> 0 then FAULT_PERMISSION
               else if mode = eARM7_MODE_USER \<or> write \<noteq> 0 then FAULT_PERMISSION
               else FAULT_NONE)
            else
              (if rom \<noteq> 0 then (if write \<noteq> 0 then FAULT_PERMISSION else FAULT_NONE)
               else FAULT_PERMISSION))
         else if ap AND 3 = 1 then
           (if mode = eARM7_MODE_USER then FAULT_PERMISSION else FAULT_NONE)
         else if ap AND 3 = 2 then
           (if mode = eARM7_MODE_USER \<and> write \<noteq> 0 then FAULT_PERMISSION else FAULT_NONE)
         else FAULT_NONE)
      else if access_control AND 3 = 2 then FAULT_DOMAIN
      else FAULT_NONE)"

text \<open>
  \<open>update_fault_table\<close> (lines 971-989): four nested loops over \<open>uint8_t\<close> counters,
  mode outermost and write innermost, each storing one entry at
  \<open>(write << 8) | (access_control << 6) | (ap << 4) | mode\<close>.
\<close>

definition fault_index :: "nat \<Rightarrow> nat \<Rightarrow> nat \<Rightarrow> nat \<Rightarrow> nat" where
  "fault_index write access_control ap mode =
     push_bit 8 write OR push_bit 6 access_control OR push_bit 4 ap OR mode"

definition fault_table_loop :: "int \<Rightarrow> int \<Rightarrow> (nat \<Rightarrow> fault) \<Rightarrow> nat \<Rightarrow> fault" where
  "fault_table_loop system rom =
     fold (\<lambda>mode.
       fold (\<lambda>ap.
         fold (\<lambda>access_control.
           fold (\<lambda>write t.
               t(fault_index write access_control ap mode :=
                   decode_fault (int mode) (int ap) (int access_control) system rom (int write)))
             [0..<2])
           [0..<4])
         [0..<4])
       [0..<16]"

definition update_fault_table :: "arm7core_h \<Rightarrow> arm_state \<Rightarrow> arm_state" where
  "update_fault_table c st =
     st\<lparr>s_fault_table :=
          fault_table_loop
            (if m_control st AND COPRO_CTRL_SYSTEM c \<noteq> 0 then 1 else 0)
            (if m_control st AND COPRO_CTRL_ROM c \<noteq> 0 then 1 else 0)
            (s_fault_table st)\<rparr>"

text \<open>
  The entry a key stands for: the key's four fields, decoded, given to \<open>decode_fault\<close>.
\<close>

definition key_entry :: "int \<Rightarrow> int \<Rightarrow> nat \<Rightarrow> fault" where
  "key_entry system rom k =
     decode_fault (int (k mod 16)) (int (k div 16 mod 4)) (int (k div 64 mod 4))
       system rom (int (k div 256))"

text \<open>
  \<open>detect_read_fault\<close> and \<open>detect_fault\<close> (lines 357-372, the branch compiled in):
  the table is read at \<open>m_mode | ap | m_decoded_access_control[domain]\<close>, with the write
  flag added for \<open>detect_fault\<close>.
\<close>

definition detect_read_fault :: "arm_state \<Rightarrow> u32 \<Rightarrow> u32 \<Rightarrow> fault" where
  "detect_read_fault st desc_lvl1 ap =
     s_fault_table st
       (unat (m_mode st OR ap
              OR ucast (m_decoded_access_control st (unat (drop_bit 5 desc_lvl1 AND 0xf)))))"

definition detect_fault :: "arm7core_h \<Rightarrow> arm_state \<Rightarrow> u32 \<Rightarrow> u32 \<Rightarrow> u32 \<Rightarrow> fault" where
  "detect_fault c st desc_lvl1 ap flags =
     s_fault_table st
       (unat (m_mode st OR ap
              OR ucast (m_decoded_access_control st (unat (drop_bit 5 desc_lvl1 AND 0xf)))
              OR (flags AND ARM7_TLB_WRITE c)))"

section \<open>The TLB walker\<close>

text \<open>\<open>fatalerror\<close> logs and stops the emulation: the function that calls it does not return.\<close>

datatype emu_stop = fatalerror

text \<open>
  \<open>arm7_tlb_get_second_level_descriptor\<close> (lines 270-289). The \<open>default\<close> case of the
  switch cannot be reached from the two calls, which pass \<open>TLB_COARSE\<close> or \<open>TLB_FINE\<close>.
\<close>

definition arm7_tlb_get_second_level_descriptor ::
  "arm7core_h \<Rightarrow> arm_state \<Rightarrow> granularity \<Rightarrow> u32 \<Rightarrow> u32 \<Rightarrow> u32" where
  "arm7_tlb_get_second_level_descriptor c st granularity first_desc vaddr =
     read_dword (m_program st)
       (case granularity of
          TLB_COARSE \<Rightarrow>
            (first_desc AND COPRO_TLB_CFLD_ADDR_MASK c)
            OR drop_bit (COPRO_TLB_VADDR_CSLTI_MASK_SHIFT c) (vaddr AND COPRO_TLB_VADDR_CSLTI_MASK c)
        | TLB_FINE \<Rightarrow>
            (first_desc AND COPRO_TLB_FPTB_ADDR_MASK c)
            OR drop_bit (COPRO_TLB_VADDR_FSLTI_MASK_SHIFT c) (vaddr AND COPRO_TLB_VADDR_FSLTI_MASK c))"

text \<open>
  The fields both walkers compute from the descriptors: the two-bit DACR field of the
  first-level descriptor's domain, the domain number, and the small page's sub-page AP
  already shifted to bits 5..4 (each a \<open>uint8_t\<close> in the source).
\<close>

definition domain_permission :: "arm_state \<Rightarrow> u32 \<Rightarrow> u8" where
  "domain_permission st desc_lvl1 =
     ucast (drop_bit (unat (drop_bit 4 desc_lvl1 AND 0x1e)) (m_domainAccessControl st) AND 3)"

text \<open>
  The same field in the spec's words: the domain access control register holds sixteen
  domains of two bits each, so the field of domain \<open>n\<close> is bits \<open>2n+1..2n\<close>.
\<close>

definition dacr_field :: "u32 \<Rightarrow> u8 \<Rightarrow> u32" where
  "dacr_field dacr domain = drop_bit (2 * unat domain) dacr AND 3"

definition desc_domain :: "u32 \<Rightarrow> u8" where
  "desc_domain desc_lvl1 = ucast (drop_bit 5 desc_lvl1 AND 0xF)"

definition small_page_ap :: "u32 \<Rightarrow> u32 \<Rightarrow> u8" where
  "small_page_ap desc_lvl2 addr =
     ucast (push_bit 4
       (drop_bit (unat (push_bit 1 (drop_bit 10 addr AND 3))) (drop_bit 4 desc_lvl2 AND 0xFF) AND 3))"

definition lvl1_granularity :: "u32 \<Rightarrow> granularity" where
  "lvl1_granularity desc_lvl1 =
     (if desc_lvl1 AND 3 = COPRO_TLB_COARSE_TABLE then TLB_COARSE else TLB_FINE)"

text \<open>
  \<open>raise_data_abort\<close> is the group of four assignments every faulting branch of
  \<open>arm7_tlb_translate\<close> makes: fault status, fault address, the pending data abort and
  the aggregate flag.
\<close>

definition raise_data_abort :: "u32 \<Rightarrow> u32 \<Rightarrow> arm_state \<Rightarrow> arm_state" where
  "raise_data_abort status addr st =
     st\<lparr>m_faultStatus := (m_faultStatus st)(0 := status),
        m_faultAddress := addr,
        m_pendingAbtD := True,
        m_pending_interrupt := True\<rparr>"

text \<open>
  \<open>arm7_tlb_translate_check\<close> (lines 439-559), the prefetch variant: the result is the
  returned flag and the value left in the reference parameter \<open>addr\<close>. It changes no
  state. The function is written in two parts: the FCSE remap of its first statement,
  and the walk on the remapped address that is the rest of its body.
\<close>

definition fcse_remap :: "arm_state \<Rightarrow> u32 \<Rightarrow> u32" where
  "fcse_remap st addr = (if addr < 0x2000000 then addr + m_pid_offset st else addr)"

definition tlb_walk_check :: "arm7core_h \<Rightarrow> arm_state \<Rightarrow> u32 \<Rightarrow> emu_stop + (bool \<times> u32)" where
  "tlb_walk_check c st addr =
     (let desc_lvl1 = m_tlb_base st (drop_bit (COPRO_TLB_VADDR_FLTI_MASK_SHIFT c) addr);
          lvl1_type = desc_lvl1 AND 3
      in if lvl1_type = COPRO_TLB_SECTION_TABLE then
           (if detect_read_fault st desc_lvl1 (drop_bit 6 desc_lvl1 AND 0x30) = FAULT_NONE
            then Inr (True, (desc_lvl1 AND COPRO_TLB_SECTION_PAGE_MASK c)
                            OR (addr AND NOT (COPRO_TLB_SECTION_PAGE_MASK c)))
            else Inr (False, addr))
         else if lvl1_type = COPRO_TLB_UNMAPPED then Inr (False, addr)
         else
           (let permission = domain_permission st desc_lvl1;
                desc_lvl2 = arm7_tlb_get_second_level_descriptor c st
                              (lvl1_granularity desc_lvl1) desc_lvl1 addr
            in if permission \<noteq> 1 \<and> permission \<noteq> 3 then Inl fatalerror
               else if desc_lvl2 AND 3 = COPRO_TLB_UNMAPPED then Inr (False, addr)
               else if desc_lvl2 AND 3 = COPRO_TLB_LARGE_PAGE then
                 Inr (True, (desc_lvl2 AND COPRO_TLB_LARGE_PAGE_MASK c)
                            OR (addr AND NOT (COPRO_TLB_LARGE_PAGE_MASK c)))
               else if desc_lvl2 AND 3 = COPRO_TLB_SMALL_PAGE then
                 (if detect_read_fault st desc_lvl1 (ucast (small_page_ap desc_lvl2 addr)) = FAULT_NONE
                  then Inr (True, (desc_lvl2 AND COPRO_TLB_SMALL_PAGE_MASK c)
                                  OR (addr AND NOT (COPRO_TLB_SMALL_PAGE_MASK c)))
                  else Inr (False, addr))
               else
                 Inr (True, (desc_lvl2 AND COPRO_TLB_TINY_PAGE_MASK c)
                            OR (addr AND NOT (COPRO_TLB_TINY_PAGE_MASK c)))))"

definition arm7_tlb_translate_check :: "arm7core_h \<Rightarrow> arm_state \<Rightarrow> u32 \<Rightarrow> emu_stop + (bool \<times> u32)" where
  "arm7_tlb_translate_check c st addr = tlb_walk_check c st (fcse_remap st addr)"

text \<open>
  \<open>arm7_tlb_translate\<close> (lines 561-667): the result is the returned flag, the value left
  in \<open>addr\<close>, and the state. Again the remap first, then the walk.
\<close>

definition tlb_walk :: "arm7core_h \<Rightarrow> arm_state \<Rightarrow> u32 \<Rightarrow> u32 \<Rightarrow> emu_stop + (bool \<times> u32 \<times> arm_state)" where
  "tlb_walk c st addr flags =
     (let desc_lvl1 = m_tlb_base st (drop_bit (COPRO_TLB_VADDR_FLTI_MASK_SHIFT c) addr);
          lvl1_type = desc_lvl1 AND 3
      in if lvl1_type = COPRO_TLB_SECTION_TABLE then
           (let fault = detect_fault c st desc_lvl1 (drop_bit 6 desc_lvl1 AND 0x30) flags
            in if fault = FAULT_NONE
               then Inr (True, (desc_lvl1 AND COPRO_TLB_SECTION_PAGE_MASK c)
                               OR (addr AND NOT (COPRO_TLB_SECTION_PAGE_MASK c)), st)
               else Inr (False, addr,
                      raise_data_abort
                        ((if fault = FAULT_DOMAIN then 9 else 13)
                         OR push_bit 4 (ucast (desc_domain desc_lvl1)))
                        addr st))
         else if lvl1_type = COPRO_TLB_UNMAPPED then
           Inr (False, addr, raise_data_abort 5 addr st)
         else
           (let permission = domain_permission st desc_lvl1;
                desc_lvl2 = arm7_tlb_get_second_level_descriptor c st
                              (lvl1_granularity desc_lvl1) desc_lvl1 addr
            in if permission \<noteq> 1 \<and> permission \<noteq> 3 then Inl fatalerror
               else if desc_lvl2 AND 3 = COPRO_TLB_UNMAPPED then
                 Inr (False, addr,
                      raise_data_abort (7 OR push_bit 4 (ucast (desc_domain desc_lvl1))) addr st)
               else if desc_lvl2 AND 3 = COPRO_TLB_LARGE_PAGE then
                 Inr (True, (desc_lvl2 AND COPRO_TLB_LARGE_PAGE_MASK c)
                            OR (addr AND NOT (COPRO_TLB_LARGE_PAGE_MASK c)), st)
               else if desc_lvl2 AND 3 = COPRO_TLB_SMALL_PAGE then
                 (let fault = detect_fault c st desc_lvl1 (ucast (small_page_ap desc_lvl2 addr)) flags
                  in if fault = FAULT_NONE
                     then Inr (True, (desc_lvl2 AND COPRO_TLB_SMALL_PAGE_MASK c)
                                     OR (addr AND NOT (COPRO_TLB_SMALL_PAGE_MASK c)), st)
                     else Inr (False, addr,
                            raise_data_abort
                              ((if fault = FAULT_DOMAIN then 11 else 15)
                               OR push_bit 4 (ucast (desc_domain desc_lvl1)))
                              addr st))
               else
                 Inr (True, (desc_lvl2 AND COPRO_TLB_TINY_PAGE_MASK c)
                            OR (addr AND NOT (COPRO_TLB_TINY_PAGE_MASK c)), st)))"

definition arm7_tlb_translate ::
  "arm7core_h \<Rightarrow> arm_state \<Rightarrow> u32 \<Rightarrow> u32 \<Rightarrow> emu_stop + (bool \<times> u32 \<times> arm_state)" where
  "arm7_tlb_translate c st addr flags = tlb_walk c st (fcse_remap st addr) flags"


section \<open>Pending exceptions\<close>

text \<open>
  Modelled from the spec: \<open>update_irq_state\<close> and \<open>arm7_check_irq_state\<close> are defined in
  arm7core.hxx, which is not among the sources. Section 3, invariant 6, and section 4.7,
  step 7, say what they do with the pending flags: the aggregate is recomputed as the
  disjunction of the six flags, and servicing clears the flag of the exception taken
  (highest priority first: data abort, FIQ, IRQ, prefetch abort, undefined, SWI) and
  recomputes the aggregate. Steps 1 to 6 of section 4.7 write registers and the mode
  only; \<open>service_pending_flags\<close> is what servicing does to the pending flags.
\<close>

definition update_irq_state :: "arm_state \<Rightarrow> arm_state" where
  "update_irq_state st =
     st\<lparr>m_pending_interrupt :=
          (m_pendingIrq st \<or> m_pendingFiq st \<or> m_pendingAbtD st
           \<or> m_pendingAbtP st \<or> m_pendingUnd st \<or> m_pendingSwi st)\<rparr>"

definition service_pending_flags :: "arm_state \<Rightarrow> arm_state" where
  "service_pending_flags st =
     (if \<not> m_pending_interrupt st then st
      else if m_pendingAbtD st then update_irq_state (st\<lparr>m_pendingAbtD := False\<rparr>)
      else if m_pendingFiq st then update_irq_state (st\<lparr>m_pendingFiq := False\<rparr>)
      else if m_pendingIrq st then update_irq_state (st\<lparr>m_pendingIrq := False\<rparr>)
      else if m_pendingAbtP st then update_irq_state (st\<lparr>m_pendingAbtP := False\<rparr>)
      else if m_pendingUnd st then update_irq_state (st\<lparr>m_pendingUnd := False\<rparr>)
      else if m_pendingSwi st then update_irq_state (st\<lparr>m_pendingSwi := False\<rparr>)
      else st)"

text \<open>
  \<open>execute_set_input\<close> (lines 1929-1955). The line numbers are an enumeration of the
  absent header; any other number reaches no case of the switch.
\<close>

datatype input_line =
  ARM7_IRQ_LINE | ARM7_FIRQ_LINE | ARM7_ABORT_EXCEPTION
  | ARM7_ABORT_PREFETCH_EXCEPTION | ARM7_UNDEFINE_EXCEPTION | OTHER_LINE

fun execute_set_input :: "arm_state \<Rightarrow> input_line \<Rightarrow> int \<Rightarrow> arm_state" where
  "execute_set_input st ARM7_IRQ_LINE state = update_irq_state (st\<lparr>m_pendingIrq := (state \<noteq> 0)\<rparr>)"
| "execute_set_input st ARM7_FIRQ_LINE state = update_irq_state (st\<lparr>m_pendingFiq := (state \<noteq> 0)\<rparr>)"
| "execute_set_input st ARM7_ABORT_EXCEPTION state = update_irq_state (st\<lparr>m_pendingAbtD := (state \<noteq> 0)\<rparr>)"
| "execute_set_input st ARM7_ABORT_PREFETCH_EXCEPTION state = update_irq_state (st\<lparr>m_pendingAbtP := (state \<noteq> 0)\<rparr>)"
| "execute_set_input st ARM7_UNDEFINE_EXCEPTION state = update_irq_state (st\<lparr>m_pendingUnd := (state \<noteq> 0)\<rparr>)"
| "execute_set_input st OTHER_LINE state = update_irq_state st"

text \<open>The invariant: the aggregate flag is the disjunction of the six flags.\<close>

definition pending_consistent :: "arm_state \<Rightarrow> bool" where
  "pending_consistent st =
     (m_pending_interrupt st =
        (m_pendingIrq st \<or> m_pendingFiq st \<or> m_pendingAbtD st
         \<or> m_pendingAbtP st \<or> m_pendingUnd st \<or> m_pendingSwi st))"

section \<open>The system coprocessor\<close>

text \<open>
  \<open>arm7_rt_w_callback\<close> (lines 2093-2195). \<open>offset\<close> is the opcode; its fields are cut
  out into \<open>uint8_t\<close> variables. The logging is left out. Register 2 takes a new direct
  pointer from the host; register 3 decodes the sixteen two-bit domain fields.
\<close>

definition copro_cReg :: "arm7core_h \<Rightarrow> u32 \<Rightarrow> u8" where
  "copro_cReg c opcode = ucast (drop_bit (INSN_COPRO_CREG_SHIFT c) (opcode AND INSN_COPRO_CREG c))"


definition copro_op3 :: "arm7core_h \<Rightarrow> u32 \<Rightarrow> u8" where
  "copro_op3 c opcode = ucast (opcode AND INSN_COPRO_OP3 c)"

definition copro_cpnum :: "arm7core_h \<Rightarrow> u32 \<Rightarrow> u8" where
  "copro_cpnum c opcode = ucast (drop_bit (INSN_COPRO_CPNUM_SHIFT c) (opcode AND INSN_COPRO_CPNUM c))"

definition decode_access_control :: "u32 \<Rightarrow> (nat \<Rightarrow> u8) \<Rightarrow> nat \<Rightarrow> u8" where
  "decode_access_control dacr =
     fold (\<lambda>i t. t(i div 2 := ucast (push_bit 6 (drop_bit i dacr AND 3))))
       (map (\<lambda>j. 2 * j) [0..<16])"

definition arm7_rt_w_callback :: "arm7core_h \<Rightarrow> arm_state \<Rightarrow> u32 \<Rightarrow> u32 \<Rightarrow> arm_state" where
  "arm7_rt_w_callback c st offset data =
     (let cReg = copro_cReg c offset; op3 = copro_op3 c offset; cpnum = copro_cpnum c offset
      in if cpnum \<noteq> 15 then
           (if cpnum = 14 then st
            else st\<lparr>m_pendingUnd := True, m_pending_interrupt := True\<rparr>)
         else if cReg = 1 then
           (let old_enable = m_control st AND COPRO_CTRL_MMU_EN c;
                st1 = st\<lparr>m_control := data AND COPRO_CTRL_MASK c\<rparr>
            in if m_control st1 AND COPRO_CTRL_MMU_EN c \<noteq> old_enable
               then st1\<lparr>m_mode_changed := True\<rparr> else st1)
         else if cReg = 2 then
           st\<lparr>m_tlbBase := data,
              m_tlb_base_mask := data AND COPRO_TLB_BASE_MASK c,
              m_tlb_base := read_ptr (m_program st) (data AND COPRO_TLB_BASE_MASK c)\<rparr>
         else if cReg = 3 then
           st\<lparr>m_domainAccessControl := data,
              m_decoded_access_control := decode_access_control data (m_decoded_access_control st)\<rparr>
         else if cReg = 5 then
           (if op3 = 0 then st\<lparr>m_faultStatus := (m_faultStatus st)(0 := data)\<rparr>
            else if op3 = 1 then st\<lparr>m_faultStatus := (m_faultStatus st)(1 := data)\<rparr>
            else st)
         else if cReg = 6 then st\<lparr>m_faultAddress := data\<rparr>
         else if cReg = 13 then
           st\<lparr>m_fcsePID := data,
              m_pid_offset := (drop_bit 25 data AND 0x7F) * 0x2000000\<rparr>
         else st)"

text \<open>
  \<open>device_start\<close> clears the core state with \<open>memset\<close> and, as its last step but one,
  calls \<open>update_fault_table\<close> (line 934): the only call of that function in arm7.cpp.
  Of \<open>device_start\<close> the model keeps these two steps for the fields the table depends on.
\<close>

definition device_start :: "arm7core_h \<Rightarrow> arm_state \<Rightarrow> arm_state" where
  "device_start c st = update_fault_table c (st\<lparr>m_control := 0\<rparr>)"

section \<open>The default memory handlers\<close>

text \<open>
  \<open>arm7_cpu_write32/16/8\<close> and \<open>arm7_cpu_read32/16/8\<close> (lines 2506-2607). A write is a
  request to the host, recorded in \<open>written\<close>.
\<close>

definition bus_write :: "bus_write \<Rightarrow> 'a arm_state_scheme \<Rightarrow> 'a arm_state_scheme" where
  "bus_write w st = st\<lparr>m_program := (m_program st)\<lparr>written := w # written (m_program st)\<rparr>\<rparr>"












section \<open>The ARM946ES: tightly coupled memory\<close>

















section \<open>The condition check of the execute loop\<close>







section \<open>Concrete states\<close>

text \<open>
  A host whose memory reads as zero, and the core as \<open>device_start\<close>'s \<open>memset\<close> leaves
  it (every field zero, an ARM7 of architecture revision 4), with the fault table not
  yet filled.
\<close>

definition host0 :: address_space where
  "host0 = \<lparr> read_byte = (\<lambda>_. 0), read_word = (\<lambda>_. 0), read_dword = (\<lambda>_. 0),
             read_ptr = (\<lambda>_ _. 0), written = [] \<rparr>"

definition core0 :: arm_state where
  "core0 = \<lparr> m_r = (\<lambda>_. 0), m_pendingIrq = False, m_pendingFiq = False,
             m_pendingAbtD = False, m_pendingAbtP = False, m_pendingUnd = False,
             m_pendingSwi = False, m_pending_interrupt = False, m_icount = 0,
             m_control = 0, m_tlbBase = 0, m_tlb_base_mask = 0, m_faultStatus = (\<lambda>_. 0),
             m_faultAddress = 0, m_fcsePID = 0, m_pid_offset = 0,
             m_domainAccessControl = 0, m_decoded_access_control = (\<lambda>_. 0), m_mode = 0,
             m_mode_changed = False, m_tlb_base = (\<lambda>_. 0), m_program = host0, m_insn = 0,
             m_archRev = 4, s_fault_table = (\<lambda>_. FAULT_NONE) \<rparr>"




text \<open>
  A core whose every first-level descriptor is 1: a coarse table of domain 0, while the
  domain access control register is 0 (no access for any domain).
\<close>

definition core_coarse :: arm_state where
  "core_coarse = core0\<lparr>m_tlb_base := (\<lambda>_. 1)\<rparr>"





section \<open>The fault table after \<open>update_fault_table\<close>\<close>

text \<open>
  The fields of a key do not overlap, so the key is a sum, and each field can be read
  back from it by division.
\<close>

lemma or_push: "x < 2 ^ n \<Longrightarrow> push_bit n y OR x = y * 2 ^ n + (x::nat)"
proof -
  assume a: "x < 2 ^ n"
  have "push_bit n y + x = push_bit n y OR x"
  proof (rule disjunctive_add_eq_or)
    show "push_bit n y AND x = 0"
    proof (rule bit_eqI)
      fix k
      have "bit x k \<Longrightarrow> k < n" using a
        by (metis bit_take_bit_iff take_bit_nat_eq_self)
      then show "bit (push_bit n y AND x) k = bit (0::nat) k"
        by (auto simp: bit_simps)
    qed
  qed
  then show ?thesis by (simp add: push_bit_eq_mult)
qed

lemma fault_index_arith:
  "fault_index w a p m = w * 256 + a * 64 + p * 16 + m" if "a < 4" "p < 4" "m < 16"
proof -
  have 1: "push_bit 4 p OR m = p * 16 + m" using or_push[of m 4 p] that by simp
  have 2: "push_bit 6 a OR (p * 16 + m) = a * 64 + (p * 16 + m)" using or_push[of "p*16+m" 6 a] that by simp
  have 3: "push_bit 8 w OR (a * 64 + (p * 16 + m)) = w * 256 + (a * 64 + (p * 16 + m))" using or_push[of "a * 64 + (p*16+m)" 8 w] that by simp
  show ?thesis unfolding fault_index_def
    by (simp add: or.assoc 1 2 3)
qed

lemma fold_overwrite:
  assumes "\<And>x t. x \<in> set xs \<Longrightarrow> step x t = (\<lambda>k. if P x k then v k else t k)"
  shows "fold step xs t = (\<lambda>k. if \<exists>x\<in>set xs. P x k then v k else t k)"
  using assms
proof (induction xs arbitrary: t)
  case Nil
  then show ?case by simp
next
  case (Cons x xs)
  have sx: "step x t = (\<lambda>k. if P x k then v k else t k)"
    by (rule Cons.prems) simp
  have "fold step xs (step x t) = (\<lambda>k. if \<exists>y\<in>set xs. P y k then v k else step x t k)"
    by (rule Cons.IH) (simp add: Cons.prems)
  then show ?case
    by (auto simp: sx fun_eq_iff)
qed

lemma div_mod_digit:
  fixes m b q :: nat
  assumes "m < b"
  shows "(q * b + m) mod b = m" and "(q * b + m) div b = q"
  using assms by simp_all

lemma key_fields:
  assumes "w < 2" "a < 4" "p < 4" "m < (16::nat)"
  shows "(w * 256 + a * 64 + p * 16 + m) mod 16 = m"
    and "(w * 256 + a * 64 + p * 16 + m) div 16 mod 4 = p"
    and "(w * 256 + a * 64 + p * 16 + m) div 64 mod 4 = a"
    and "(w * 256 + a * 64 + p * 16 + m) div 256 = w"
proof -
  define k where "k = w * 256 + a * 64 + p * 16 + m"
  have e16: "(w * 16 + a * 4 + p) * 16 + m = k"
    and e64: "(w * 4 + a) * 64 + (p * 16 + m) = k"
    and e256: "w * 256 + (a * 64 + p * 16 + m) = k"
    by (simp_all add: k_def)
  have lt64: "p * 16 + m < 64" and lt256: "a * 64 + p * 16 + m < 256"
    using assms by simp_all
  have m16: "k mod 16 = m"
    using div_mod_digit(1)[OF assms(4), of "w * 16 + a * 4 + p"] by (simp only: e16)
  have "k div 16 = (w * 4 + a) * 4 + p"
    using div_mod_digit(2)[OF assms(4), of "w * 16 + a * 4 + p"] by (simp only: e16) simp
  then have d16: "k div 16 mod 4 = p"
    using div_mod_digit(1)[OF assms(3), of "w * 4 + a"] by simp
  have "k div 64 = w * 4 + a"
    using div_mod_digit(2)[OF lt64, of "w * 4 + a"] by (simp only: e64)
  then have d64: "k div 64 mod 4 = a"
    using div_mod_digit(1)[OF assms(2), of w] by simp
  have d256: "k div 256 = w"
    using div_mod_digit(2)[OF lt256, of w] by (simp only: e256)
  show "(w * 256 + a * 64 + p * 16 + m) mod 16 = m"
    "(w * 256 + a * 64 + p * 16 + m) div 16 mod 4 = p"
    "(w * 256 + a * 64 + p * 16 + m) div 64 mod 4 = a"
    "(w * 256 + a * 64 + p * 16 + m) div 256 = w"
    using m16 d16 d64 d256 unfolding k_def by blast+
qed

lemma write_step:
  assumes "w < 2" "a < 4" "p < 4" "m < 16"
  shows "t(fault_index w a p m := decode_fault (int m) (int p) (int a) s r (int w))
       = (\<lambda>k. if k = w * 256 + a * 64 + p * 16 + m then key_entry s r k else t k)"
  using assms by (auto simp: fault_index_arith fun_eq_iff key_entry_def key_fields)

lemma fault_table_loop_eq:
  "fault_table_loop s r t =
     (\<lambda>k. if \<exists>m\<in>set [0..<16]. \<exists>p\<in>set [0..<4]. \<exists>a\<in>set [0..<4]. \<exists>w\<in>set [0..<2].
                k = w * 256 + a * 64 + p * 16 + m
          then key_entry s r k else t k)"
  unfolding fault_table_loop_def
  apply (rule fold_overwrite)
  apply (rule fold_overwrite)
  apply (rule fold_overwrite)
  apply (rule fold_overwrite)
  apply (rule write_step)
  apply simp_all
  done

lemma fault_table_loop_entry:
  assumes "m < 16" "p < 4" "a < 4" "w < 2"
  shows "fault_table_loop s r t (fault_index w a p m)
       = decode_fault (int m) (int p) (int a) s r (int w)"
proof -
  have "\<exists>m'\<in>set [0..<16]. \<exists>p'\<in>set [0..<4]. \<exists>a'\<in>set [0..<4]. \<exists>w'\<in>set [0..<2].
          fault_index w a p m = w' * 256 + a' * 64 + p' * 16 + m'"
    unfolding fault_index_arith[OF assms(3) assms(2) assms(1)]
    by (rule bexI[of _ m], rule bexI[of _ p], rule bexI[of _ a], rule bexI[of _ w])
       (use assms in simp_all)
  then have "fault_table_loop s r t (fault_index w a p m) = key_entry s r (fault_index w a p m)"
    by (simp only: fault_table_loop_eq if_True)
  also have "\<dots> = decode_fault (int m) (int p) (int a) s r (int w)"
    using assms by (simp add: fault_index_arith key_entry_def key_fields)
  finally show ?thesis .
qed

lemma update_fault_table_entry:
  assumes "m < 16" "p < 4" "a < 4" "w < 2"
  shows "s_fault_table (update_fault_table c st) (fault_index w a p m)
       = decode_fault (int m) (int p) (int a)
           (if m_control st AND COPRO_CTRL_SYSTEM c \<noteq> 0 then 1 else 0)
           (if m_control st AND COPRO_CTRL_ROM c \<noteq> 0 then 1 else 0) (int w)"
  unfolding update_fault_table_def using assms
  by (simp add: fault_table_loop_entry)

lemma arm7_rt_w_callback_fault_table:
  "s_fault_table (arm7_rt_w_callback c st offset data) = s_fault_table st"
  by (simp add: arm7_rt_w_callback_def Let_def)

section \<open>Writes to the CP15 control register and the fault table\<close>

text \<open>
  \<open>0xEE010F10\<close> is \<open>MCR p15, 0, Rd, c1, c0, 0\<close>: a write to CP15 register 1.
\<close>

lemma mcr_control_cReg: "copro_cReg arm7core_h_values 0xEE010F10 = 1"
  by (simp add: copro_cReg_def arm7core_h_values_def)

lemma mcr_control_cpnum: "copro_cpnum arm7core_h_values 0xEE010F10 = 15"
  by (simp add: copro_cpnum_def arm7core_h_values_def)

lemma mcr_control_written: "m_control (arm7_rt_w_callback arm7core_h_values (device_start arm7core_h_values core0) 0xEE010F10 0x100) = 0x100"
  by (simp add: arm7_rt_w_callback_def Let_def mcr_control_cReg mcr_control_cpnum device_start_def update_fault_table_def)
     (simp add:  arm7core_h_values_def)

text \<open>
  C1. The spec has every write to the CP15 control register repopulate the fault table
  from the System and ROM bits just written. The write does not touch the table
  (\<open>arm7_rt_w_callback_fault_table\<close>); \<open>update_fault_table\<close> runs in \<open>device_start\<close> only,
  when the control register is zero. After \<open>device_start\<close>, a write of 0x100 (System set,
  ROM clear) leaves the entry for a read in Supervisor mode (3), AP 0, client domain at
  \<open>FAULT_PERMISSION\<close>, where \<open>decode_fault\<close> with System = 1 gives \<open>FAULT_NONE\<close>.
\<close>

theorem control_write_leaves_fault_table_stale:
  "m_control (arm7_rt_w_callback arm7core_h_values (device_start arm7core_h_values core0)
               0xEE010F10 0x100) AND COPRO_CTRL_SYSTEM arm7core_h_values \<noteq> 0
   \<and> s_fault_table (arm7_rt_w_callback arm7core_h_values (device_start arm7core_h_values core0)
               0xEE010F10 0x100) (fault_index 0 1 0 3) = FAULT_PERMISSION
   \<and> decode_fault 3 0 1 1 0 0 = FAULT_NONE"
proof -
  have "s_fault_table (device_start arm7core_h_values core0) (fault_index 0 1 0 3)
        = decode_fault (int 3) (int 0) (int 1) 0 0 (int 0)"
    unfolding device_start_def
    by (subst update_fault_table_entry) simp_all
  also have "\<dots> = FAULT_PERMISSION"
    by (simp add: decode_fault_def)
  finally have 1: "s_fault_table (device_start arm7core_h_values core0) (fault_index 0 1 0 3) = FAULT_PERMISSION" .
  have 2: "decode_fault 3 0 1 1 0 0 = FAULT_NONE"
    by (simp add: decode_fault_def eARM7_MODE_USER_def)
  have 3: "m_control (arm7_rt_w_callback arm7core_h_values (device_start arm7core_h_values core0)
               0xEE010F10 0x100) AND COPRO_CTRL_SYSTEM arm7core_h_values \<noteq> 0"
    by (simp only: mcr_control_written) (simp add: arm7core_h_values_def)
  have 4: "s_fault_table (arm7_rt_w_callback arm7core_h_values (device_start arm7core_h_values core0)
               0xEE010F10 0x100) (fault_index 0 1 0 3) = FAULT_PERMISSION"
    by (simp only: arm7_rt_w_callback_fault_table 1)
  show ?thesis
    using 2 3 4 by (intro conjI)
qed

section \<open>Translation faults\<close>

lemma core0_unmapped:
  "arm7_tlb_translate arm7core_h_values core0 0xC0000000 flags
     = Inr (False, 0xC0000000, raise_data_abort 5 0xC0000000 core0)"
  by (simp add: arm7_tlb_translate_def tlb_walk_def fcse_remap_def core0_def Let_def
        COPRO_TLB_SECTION_TABLE_def COPRO_TLB_UNMAPPED_def)

text \<open>
  C2. When the first-level descriptor of the looked-up address (the address after the
  FCSE remap) has low two bits 0, \<open>arm7_tlb_translate\<close> stores 5 in the data fault status
  register and the looked-up address in the fault address register, sets the pending
  data abort and the aggregate flag, and returns false; the reference parameter holds
  the looked-up address, not a physical one. Nothing else changes.
\<close>

theorem unmapped_section_translation_fault:
  assumes "m_tlb_base st (drop_bit (COPRO_TLB_VADDR_FLTI_MASK_SHIFT c) (fcse_remap st addr)) AND 3 = 0"
  shows "arm7_tlb_translate c st addr flags =
           Inr (False, fcse_remap st addr,
                st\<lparr>m_faultStatus := (m_faultStatus st)(0 := 5),
                   m_faultAddress := fcse_remap st addr,
                   m_pendingAbtD := True,
                   m_pending_interrupt := True\<rparr>)"
  using assms
  by (simp add: arm7_tlb_translate_def tlb_walk_def Let_def raise_data_abort_def
        COPRO_TLB_SECTION_TABLE_def COPRO_TLB_UNMAPPED_def)

theorem unmapped_section_translation_fault_witness:
  "m_tlb_base core0 (drop_bit (COPRO_TLB_VADDR_FLTI_MASK_SHIFT arm7core_h_values)
        (fcse_remap core0 0xC0000000)) AND 3 = 0
   \<and> arm7_tlb_translate arm7core_h_values core0 0xC0000000 0 =
           Inr (False, 0xC0000000,
                core0\<lparr>m_faultStatus := (m_faultStatus core0)(0 := 5),
                   m_faultAddress := 0xC0000000,
                   m_pendingAbtD := True,
                   m_pending_interrupt := True\<rparr>)"
proof -
  have h: "m_tlb_base core0 (drop_bit (COPRO_TLB_VADDR_FLTI_MASK_SHIFT arm7core_h_values)
        (fcse_remap core0 0xC0000000)) AND 3 = 0"
    by (simp add: core0_def)
  have r: "fcse_remap core0 0xC0000000 = 0xC0000000"
    by (simp add: fcse_remap_def)
  show ?thesis
    using h unmapped_section_translation_fault [OF h, of 0] by (simp add: r)
qed

section \<open>The FCSE process ID\<close>

text \<open>\<open>0xEE0D0F10\<close> is \<open>MCR p15, 0, Rd, c13, c0, 0\<close>: a write to CP15 register 13.\<close>

lemma mcr_pid_fields:
  "copro_cpnum arm7core_h_values 0xEE0D0F10 = 15" "copro_cReg arm7core_h_values 0xEE0D0F10 = 13"
  by (simp_all add: copro_cpnum_def copro_cReg_def arm7core_h_values_def)

lemma pid_write_offset:
  assumes "copro_cpnum c offset = 15" "copro_cReg c offset = 13"
  shows "m_pid_offset (arm7_rt_w_callback c st offset v) = (drop_bit 25 v AND 0x7F) * 0x2000000"
  using assms by (simp add: arm7_rt_w_callback_def Let_def)

text \<open>
  C4. A write of \<open>v\<close> to CP15 register 13 sets the PID offset to
  \<open>((v >> 25) & 0x7F) * 0x02000000\<close>. In every later state that still holds this offset,
  both translators walk the tables at the address plus the offset when the address is
  below 0x02000000 and at the address itself otherwise; with a PID field of 0 they
  walk at the address itself, whatever it is.
\<close>

theorem fcse_pid_write_remaps_low_addresses:
  assumes "copro_cpnum c offset = 15" and "copro_cReg c offset = 13"
    and "m_pid_offset st' = m_pid_offset (arm7_rt_w_callback c st offset v)"
  shows "m_pid_offset (arm7_rt_w_callback c st offset v) = (drop_bit 25 v AND 0x7F) * 0x2000000
       \<and> arm7_tlb_translate c st' addr flags =
           tlb_walk c st'
             (if addr < 0x2000000 then addr + (drop_bit 25 v AND 0x7F) * 0x2000000 else addr) flags
       \<and> arm7_tlb_translate_check c st' addr =
           tlb_walk_check c st'
             (if addr < 0x2000000 then addr + (drop_bit 25 v AND 0x7F) * 0x2000000 else addr)
       \<and> (drop_bit 25 v AND 0x7F = 0 \<longrightarrow>
            arm7_tlb_translate c st' addr flags = tlb_walk c st' addr flags
            \<and> arm7_tlb_translate_check c st' addr = tlb_walk_check c st' addr)"
  using assms(3)
  by (simp add: pid_write_offset [OF assms(1,2)] arm7_tlb_translate_def
        arm7_tlb_translate_check_def fcse_remap_def)

theorem fcse_pid_write_remaps_low_addresses_witness:
  "copro_cpnum arm7core_h_values 0xEE0D0F10 = 15
   \<and> copro_cReg arm7core_h_values 0xEE0D0F10 = 13
   \<and> m_pid_offset (arm7_rt_w_callback arm7core_h_values core0 0xEE0D0F10 0x02000000) = 0x02000000
   \<and> arm7_tlb_translate arm7core_h_values
        (arm7_rt_w_callback arm7core_h_values core0 0xEE0D0F10 0x02000000) 0x1000 0 =
      tlb_walk arm7core_h_values
        (arm7_rt_w_callback arm7core_h_values core0 0xEE0D0F10 0x02000000) 0x02001000 0
   \<and> arm7_tlb_translate_check arm7core_h_values
        (arm7_rt_w_callback arm7core_h_values core0 0xEE0D0F10 0x02000000) 0x1000 =
      tlb_walk_check arm7core_h_values
        (arm7_rt_w_callback arm7core_h_values core0 0xEE0D0F10 0x02000000) 0x02001000
   \<and> arm7_tlb_translate arm7core_h_values
        (arm7_rt_w_callback arm7core_h_values core0 0xEE0D0F10 0) 0x1000 0 =
      tlb_walk arm7core_h_values
        (arm7_rt_w_callback arm7core_h_values core0 0xEE0D0F10 0) 0x1000 0"
  using fcse_pid_write_remaps_low_addresses
          [OF mcr_pid_fields refl, of core0 "0x02000000" "0x1000" 0]
        fcse_pid_write_remaps_low_addresses
          [OF mcr_pid_fields refl, of core0 "0" "0x1000" 0]
  by (simp add: mcr_pid_fields)

section \<open>The memory handlers with the MMU off, and on a failed translation\<close>









section \<open>The aggregate pending flag\<close>

lemma update_irq_state_consistent: "pending_consistent (update_irq_state st)"
  by (simp add: pending_consistent_def update_irq_state_def)

lemma execute_set_input_consistent: "pending_consistent (execute_set_input st line state)"
  by (cases line) (simp_all add: update_irq_state_consistent)

lemma raise_data_abort_consistent: "pending_consistent (raise_data_abort s a st)"
  by (simp add: pending_consistent_def raise_data_abort_def)

lemma tlb_walk_consistent:
  assumes "tlb_walk c st addr flags = Inr (ok, a', st')"
  shows "ok \<and> st' = st \<or> \<not> ok \<and> pending_consistent st'"
  using assms
  by (auto simp: tlb_walk_def Let_def raise_data_abort_consistent split: if_splits)

lemma service_pending_flags_consistent:
  assumes "pending_consistent st \<or> service_pending_flags st \<noteq> st"
  shows "pending_consistent (service_pending_flags st)"
  using assms
  by (auto simp: service_pending_flags_def update_irq_state_consistent split: if_splits)

text \<open>
  C9. After \<open>execute_set_input\<close>, after a translation that raised a fault, after a write
  to a coprocessor that is not there, and after servicing, the aggregate flag is the
  disjunction of the six pending flags. A translation that raises no fault leaves the
  state as it is. (\<open>update_irq_state\<close> and the servicing of the flags follow the spec.)
\<close>

theorem pending_interrupt_is_disjunction:
  "pending_consistent (execute_set_input st line state)
   \<and> (arm7_tlb_translate c st addr flags = Inr (ok, a', st') \<longrightarrow>
        (if ok then st' = st else pending_consistent st'))
   \<and> (copro_cpnum c offset \<noteq> 15 \<and> copro_cpnum c offset \<noteq> 14 \<longrightarrow>
        pending_consistent (arm7_rt_w_callback c st offset data))
   \<and> (pending_consistent st \<longrightarrow> pending_consistent (arm7_rt_w_callback c st offset data))
   \<and> (service_pending_flags st \<noteq> st \<longrightarrow> pending_consistent (service_pending_flags st))
   \<and> (pending_consistent st \<longrightarrow> pending_consistent (service_pending_flags st))"
proof (intro conjI impI)
  show "pending_consistent (execute_set_input st line state)"
    by (rule execute_set_input_consistent)
  show "if ok then st' = st else pending_consistent st'"
    if "arm7_tlb_translate c st addr flags = Inr (ok, a', st')"
    using tlb_walk_consistent [OF that [unfolded arm7_tlb_translate_def]] by auto
  show "pending_consistent (arm7_rt_w_callback c st offset data)"
    if "copro_cpnum c offset \<noteq> 15 \<and> copro_cpnum c offset \<noteq> 14"
    using that by (simp add: arm7_rt_w_callback_def Let_def pending_consistent_def)
  show "pending_consistent (arm7_rt_w_callback c st offset data)" if "pending_consistent st"
    using that by (simp add: arm7_rt_w_callback_def Let_def pending_consistent_def)
  show "pending_consistent (service_pending_flags st)" if "service_pending_flags st \<noteq> st"
    using that by (simp add: service_pending_flags_consistent)
  show "pending_consistent (service_pending_flags st)" if "pending_consistent st"
    using that by (simp add: service_pending_flags_consistent)
qed

theorem pending_interrupt_is_disjunction_witness:
  "pending_consistent (execute_set_input core0 ARM7_IRQ_LINE 1)
   \<and> m_pendingIrq (execute_set_input core0 ARM7_IRQ_LINE 1)
   \<and> m_pending_interrupt (execute_set_input core0 ARM7_IRQ_LINE 1)
   \<and> arm7_tlb_translate arm7core_h_values core0 0xC0000000 0
        = Inr (False, 0xC0000000, raise_data_abort 5 0xC0000000 core0)
   \<and> pending_consistent (raise_data_abort 5 0xC0000000 core0)
   \<and> service_pending_flags (raise_data_abort 5 0xC0000000 core0)
        \<noteq> raise_data_abort 5 0xC0000000 core0
   \<and> pending_consistent (service_pending_flags (raise_data_abort 5 0xC0000000 core0))"
proof -
  have d: "service_pending_flags (raise_data_abort 5 0xC0000000 core0)
        \<noteq> raise_data_abort 5 0xC0000000 core0"
  proof
    assume "service_pending_flags (raise_data_abort 5 0xC0000000 core0)
        = raise_data_abort 5 0xC0000000 core0"
    then have "m_pendingAbtD (service_pending_flags (raise_data_abort 5 0xC0000000 core0))
        = m_pendingAbtD (raise_data_abort 5 0xC0000000 core0)" by simp
    then show False
      by (simp add: service_pending_flags_def raise_data_abort_def update_irq_state_def)
  qed
  show ?thesis
    using pending_interrupt_is_disjunction
            [of core0 ARM7_IRQ_LINE 1 arm7core_h_values "0xC0000000" 0 False "0xC0000000"
                "raise_data_abort 5 0xC0000000 core0"]
          pending_interrupt_is_disjunction
            [of "raise_data_abort 5 0xC0000000 core0" ARM7_IRQ_LINE 1 arm7core_h_values]
          d
    by (simp add: core0_unmapped) (simp add: update_irq_state_def core0_def)
qed

section \<open>Second-level tables of a domain without access\<close>

lemma drop_and_shifted_mask:
  "drop_bit k d AND push_bit j (mask m) = push_bit j (drop_bit (k + j) d AND mask m)"
  for d :: "'a::len word"
  by (rule bit_word_eqI) (auto simp: bit_simps ac_simps)

lemma shift_eq: "drop_bit 4 d AND 0x1e = push_bit 1 (drop_bit 5 d AND 0xf)" for d :: u32
proof -
  have a: "(0x1e :: u32) = push_bit 1 (mask 4)" by (simp add: mask_eq_exp_minus_1)
  have b: "(0xf :: u32) = mask 4" by (simp add: mask_eq_exp_minus_1)
  show ?thesis
    unfolding a b using drop_and_shifted_mask [of 4 d 1 4] by simp
qed

lemma domain_index:
  "unat (drop_bit 4 d AND 0x1e) = 2 * unat (desc_domain d)" for d :: u32
proof -
  have le: "drop_bit 5 d AND 0xf \<le> 0xf" by (rule word_and_le1)
  then have lt: "unat (drop_bit 5 d AND 0xf) < 16"
    by (simp add: word_le_nat_alt)
  have u: "unat (desc_domain d) = unat (drop_bit 5 d AND 0xf)"
    unfolding desc_domain_def using lt
    by (simp add: unsigned_ucast_eq take_bit_nat_eq_self)
  have "unat (push_bit 1 (drop_bit 5 d AND 0xf)) = 2 * unat (drop_bit 5 d AND 0xf)"
    using lt by (simp add: push_bit_eq_mult unat_word_ariths)
  then show ?thesis by (simp add: shift_eq u)
qed

lemma domain_permission_dacr_field:
  "domain_permission st d = ucast (dacr_field (m_domainAccessControl st) (desc_domain d))"
  by (simp add: domain_permission_def dacr_field_def domain_index)

lemma dacr_field_ucast:
  "(ucast (dacr_field dacr n) :: u8) = ucast v \<longleftrightarrow> dacr_field dacr n = v" if "v \<le> 3" for v :: u32
proof -
  have le: "dacr_field dacr n \<le> 3" unfolding dacr_field_def by (rule word_and_le1)
  have "unat (dacr_field dacr n) < 256" "unat v < 256"
    using le that by (simp_all add: word_le_nat_alt)
  then have "unat (ucast (dacr_field dacr n) :: u8) = unat (dacr_field dacr n)"
    "unat (ucast v :: u8) = unat v"
    by (simp_all add: unsigned_ucast_eq take_bit_nat_eq_self)
  then show ?thesis
    by (metis word_unat_eq_iff)
qed

lemma domain_permission_no_access:
  assumes "dacr_field (m_domainAccessControl st) (desc_domain d) \<noteq> 1"
    and "dacr_field (m_domainAccessControl st) (desc_domain d) \<noteq> 3"
  shows "domain_permission st d \<noteq> 1 \<and> domain_permission st d \<noteq> 3"
  using assms dacr_field_ucast [of 1 "m_domainAccessControl st" "desc_domain d"]
    dacr_field_ucast [of 3 "m_domainAccessControl st" "desc_domain d"]
  by (simp add: domain_permission_dacr_field)

text \<open>
  C7. When the first-level descriptor of the looked-up address is a coarse or a fine
  table and the DACR field of its domain is neither 1 (client) nor 3 (manager), both
  translators call \<open>fatalerror\<close>: the emulation stops, which is the fall-back the spec
  permits in place of a domain fault. No fault is recorded and no address is returned.
\<close>

theorem second_level_without_domain_access_stops:
  assumes "desc = m_tlb_base st (drop_bit (COPRO_TLB_VADDR_FLTI_MASK_SHIFT c) (fcse_remap st addr))"
    and "desc AND 3 = COPRO_TLB_COARSE_TABLE \<or> desc AND 3 = COPRO_TLB_FINE_TABLE"
    and "dacr_field (m_domainAccessControl st) (desc_domain desc) \<noteq> 1"
    and "dacr_field (m_domainAccessControl st) (desc_domain desc) \<noteq> 3"
  shows "arm7_tlb_translate c st addr flags = Inl fatalerror
       \<and> arm7_tlb_translate_check c st addr = Inl fatalerror"
proof -
  have k: "desc AND 3 \<noteq> COPRO_TLB_SECTION_TABLE" "desc AND 3 \<noteq> COPRO_TLB_UNMAPPED"
    using assms(2)
    by (auto simp: COPRO_TLB_SECTION_TABLE_def COPRO_TLB_UNMAPPED_def
          COPRO_TLB_COARSE_TABLE_def COPRO_TLB_FINE_TABLE_def)
  have p: "domain_permission st desc \<noteq> 1 \<and> domain_permission st desc \<noteq> 3"
    using assms(3,4) by (rule domain_permission_no_access)
  show ?thesis
    using k p unfolding arm7_tlb_translate_def arm7_tlb_translate_check_def
      tlb_walk_def tlb_walk_check_def assms(1) [symmetric] Let_def
    by simp
qed

theorem second_level_without_domain_access_stops_witness:
  "(1::u32) = m_tlb_base core_coarse
       (drop_bit (COPRO_TLB_VADDR_FLTI_MASK_SHIFT arm7core_h_values) (fcse_remap core_coarse 0xC0000000))
   \<and> (1::u32) AND 3 = COPRO_TLB_COARSE_TABLE
   \<and> dacr_field (m_domainAccessControl core_coarse) (desc_domain 1) = 0
   \<and> arm7_tlb_translate arm7core_h_values core_coarse 0xC0000000 0 = Inl fatalerror
   \<and> arm7_tlb_translate_check arm7core_h_values core_coarse 0xC0000000 = Inl fatalerror"
proof -
  have a: "(1::u32) = m_tlb_base core_coarse
       (drop_bit (COPRO_TLB_VADDR_FLTI_MASK_SHIFT arm7core_h_values) (fcse_remap core_coarse 0xC0000000))"
    by (simp add: core_coarse_def core0_def)
  have b: "(1::u32) AND 3 = COPRO_TLB_COARSE_TABLE"
    by (simp add: COPRO_TLB_COARSE_TABLE_def)
  have d: "dacr_field (m_domainAccessControl core_coarse) (desc_domain 1) = 0"
    by (simp add: dacr_field_def core_coarse_def core0_def)
  show ?thesis
    using a b d
      second_level_without_domain_access_stops [OF a disjI1 [OF b], of 0]
    by simp
qed

section \<open>Unaligned word reads\<close>











section \<open>Instructions whose condition fails\<close>












section \<open>The TCM windows of the ARM946ES\<close>
























section \<open>What holds of the fault table\<close>

text \<open>
  X1. After \<open>update_fault_table\<close>, the entry at every key
  \<open>(write << 8) | (access_control << 6) | (ap << 4) | mode\<close> is \<open>decode_fault\<close> of the
  key's fields with the System and ROM bits the control register holds at that moment.
\<close>

theorem fault_table_matches_decode_fault:
  assumes "mode < 16" and "ap < 4" and "access_control < 4" and "write < 2"
  shows "s_fault_table (update_fault_table c st) (fault_index write access_control ap mode)
       = decode_fault (int mode) (int ap) (int access_control)
           (if m_control st AND COPRO_CTRL_SYSTEM c \<noteq> 0 then 1 else 0)
           (if m_control st AND COPRO_CTRL_ROM c \<noteq> 0 then 1 else 0) (int write)"
  using assms by (rule update_fault_table_entry)

theorem fault_table_matches_decode_fault_witness:
  "(3::nat) < 16 \<and> (0::nat) < 4 \<and> (1::nat) < 4 \<and> (0::nat) < 2
   \<and> s_fault_table (update_fault_table arm7core_h_values (core0\<lparr>m_control := 0x100\<rparr>))
         (fault_index 0 1 0 3) = FAULT_NONE"
proof -
  have "s_fault_table (update_fault_table arm7core_h_values (core0\<lparr>m_control := 0x100\<rparr>))
         (fault_index 0 1 0 3)
        = decode_fault (int 3) (int 0) (int 1)
           (if m_control (core0\<lparr>m_control := 0x100\<rparr>) AND COPRO_CTRL_SYSTEM arm7core_h_values \<noteq> 0
            then 1 else 0)
           (if m_control (core0\<lparr>m_control := 0x100\<rparr>) AND COPRO_CTRL_ROM arm7core_h_values \<noteq> 0
            then 1 else 0) (int 0)"
    by (rule fault_table_matches_decode_fault) simp_all
  also have "\<dots> = FAULT_NONE"
    by (simp add: decode_fault_def arm7core_h_values_def eARM7_MODE_USER_def)
  finally show ?thesis by simp
qed

text \<open>
  X2. No coprocessor write changes the fault table: \<open>arm7_rt_w_callback\<close> leaves
  \<open>s_fault_table\<close> as it found it, whatever the register and the value.
\<close>

theorem coprocessor_write_keeps_fault_table:
  "s_fault_table (arm7_rt_w_callback c st offset data) = s_fault_table st"
  by (simp add: arm7_rt_w_callback_def Let_def)

end
